theory Spec2Isabelle
  imports Complex_Main
begin

section \<open>The REST client of the MSO provider: data model\<close>

text \<open>
  The client lives in the second half of
  \<^verbatim>\<open>src/mso/resource_mso_schema_site_service_graph.go\<close> (package \<^verbatim>\<open>client\<close>).
  Go's \<^verbatim>\<open>int\<close> is modelled by \<open>int\<close>: the attempt counter of the retry loop never
  exceeds \<open>maxRetries + 1\<close>, so it cannot wrap as long as \<open>maxRetries < 2^63 - 1\<close>.
  The products \<^verbatim>\<open>time.Duration(n) * time.Second\<close> are 64-bit and their wrap-around is
  written out (\<open>wrap64\<close>). Go's \<^verbatim>\<open>float64\<close> is read as \<open>real\<close>: the delay arithmetic
  is the exact one, rounding is not modelled.
\<close>

datatype error =
    LibError string
  | RequestFailed int int
  | ErrorNew string
  | DomainNotFound string
  | NotAuthenticated

text \<open>
  \<open>LibError\<close> is an error value produced by a library outside the repository
  (\<^verbatim>\<open>net/http\<close>, \<^verbatim>\<open>net/url\<close>, \<^verbatim>\<open>ioutil\<close>, the JSON container).
  \<open>RequestFailed code n\<close> is
  \<^verbatim>\<open>fmt.Errorf("[ERROR] HTTP Request failed with status code %d after %d attempts", code, n)\<close>;
  \<open>ErrorNew s\<close> is \<^verbatim>\<open>errors.New(s)\<close> or a \<^verbatim>\<open>fmt.Errorf\<close> of a constant string;
  \<open>DomainNotFound d\<close> is \<^verbatim>\<open>fmt.Errorf("Unable to find domain id for domain %s", d)\<close>.
\<close>

text \<open>A call either returns or panics (a nil dereference inside a library method).\<close>

datatype 'a outcome = Panic | Return 'a

record request =
  Method :: string
  URL :: string
  ReqBody :: "string option"
  Header :: "string \<rightharpoonup> string"

text \<open>
  A response as the executor sees it: the status code, the bytes \<^verbatim>\<open>ioutil.ReadAll\<close>
  returned for the body and the error it returned with them.
\<close>

record response =
  StatusCode :: int
  Body :: string
  ReadErr :: "error option"

text \<open>
  Modelled from the spec: the type \<^verbatim>\<open>Auth\<close> and its method \<^verbatim>\<open>CalculateExpiry\<close> are
  not in the source files; a session token is a credential string and an absolute expiry
  instant, computed at authentication time as now plus the validity window.
\<close>

record Auth =
  Token :: string
  Expiry :: int

definition CalculateExpiry :: "int \<Rightarrow> int \<Rightarrow> Auth \<Rightarrow> Auth" where
  "CalculateExpiry now willExpire a = a\<lparr>Expiry := now + willExpire\<rparr>"

text \<open>
  The struct \<^verbatim>\<open>Client\<close>. The fields \<^verbatim>\<open>httpClient\<close> and \<^verbatim>\<open>Mutex\<close> carry no data
  of their own: the transport is part of the environment below.
\<close>

record 'u Client =
  BaseURL :: 'u
  AuthToken :: "Auth option"
  username :: string
  password :: string
  insecure :: bool
  reqTimeoutSet :: bool
  reqTimeoutVal :: nat
  proxyUrl :: string
  domain :: string
  platform :: string
  version :: string
  skipLoggingPayload :: bool
  maxRetries :: int
  backoffMinDelay :: int
  backoffMaxDelay :: int
  backoffDelayFactor :: real

text \<open>
  What the client observes of the outside and what it does to it: the number of
  \<^verbatim>\<open>httpClient.Do\<close> calls made so far, the number of \<^verbatim>\<open>rand.Float64\<close> draws, and
  the durations (nanoseconds) passed to \<^verbatim>\<open>time.Sleep\<close>, oldest first.
\<close>

record world =
  httpCalls :: nat
  randCalls :: nat
  slept :: "int list"

text \<open>
  The libraries the client calls are parameters. \<open>'j\<close> is the JSON container
  (\<^verbatim>\<open>*container.Container\<close>, \<open>None\<close> the nil pointer), \<open>'u\<close> a parsed URL, \<open>'v\<close> a
  parsed version.
  \<^item> \<open>httpDo k req\<close> is the answer of the \<open>k\<close>-th \<^verbatim>\<open>httpClient.Do\<close> call of the run (a
    transport error or a response), \<open>Float64 k\<close> the \<open>k\<close>-th draw of \<^verbatim>\<open>rand.Float64\<close>,
    \<open>timeNow\<close> the clock.
  \<^item> \<open>ParseJSON\<close> is \<^verbatim>\<open>container.ParseJSON\<close>, which gives no container with an error;
    \<open>Bytes b\<close> is \<^verbatim>\<open>b.Bytes()\<close>; \<open>SetKey b v k\<close> is the container after \<^verbatim>\<open>b.Set(v, k)\<close>;
    \<open>FieldString b k\<close> is \<^verbatim>\<open>b.S(k).String()\<close>; \<open>SearchString b k\<close> is
    \<^verbatim>\<open>b.Search(k).String()\<close>; \<open>ArrayCount b k\<close> and \<open>ArrayElement b i k\<close> are
    \<^verbatim>\<open>b.ArrayCount(k)\<close> and \<^verbatim>\<open>b.ArrayElement(i, k)\<close>. A method whose receiver may be
    the nil pointer returns an outcome: what it does there is up to the package.
  \<^item> \<open>CheckForErrors\<close> and \<open>StripQuotes\<close> (\<^verbatim>\<open>models.StripQuotes\<close>) are functions of
    other files of the client.
  \<^item> \<open>urlParse\<close> is \<^verbatim>\<open>url.Parse\<close>; \<open>setValidateFalse u\<close> is \<open>u\<close> after the three lines
    that set the query parameter \<^verbatim>\<open>validate=false\<close>; \<open>ResolveReference b u\<close> is
    \<^verbatim>\<open>b.ResolveReference(u)\<close>; \<open>urlString\<close> is \<^verbatim>\<open>String()\<close>; \<open>NewRequestErr m u\<close> is
    the error of \<^verbatim>\<open>http.NewRequest\<close> for the method and the URL, if any.
  \<^item> \<open>NewVersion\<close> and \<open>Compare\<close> are those of the version library;
    \<open>Compare e a b\<close> is \<^verbatim>\<open>a.Compare(b)\<close>.
\<close>

record ('j, 'u, 'v) env =
  httpDo :: "nat \<Rightarrow> request \<Rightarrow> error + response"
  Float64 :: "nat \<Rightarrow> real"
  timeNow :: "world \<Rightarrow> int"
  ParseJSON :: "string \<Rightarrow> error + 'j"
  Bytes :: "'j option \<Rightarrow> string outcome"
  SetKey :: "'j \<Rightarrow> string \<Rightarrow> string \<Rightarrow> 'j"
  FieldString :: "'j \<Rightarrow> string \<Rightarrow> string"
  SearchString :: "'j option \<Rightarrow> string \<Rightarrow> string outcome"
  ArrayCount :: "'j option \<Rightarrow> string \<Rightarrow> (error + int) outcome"
  ArrayElement :: "'j option \<Rightarrow> int \<Rightarrow> string \<Rightarrow> (error + 'j) outcome"
  CheckForErrors :: "'j option \<Rightarrow> string \<Rightarrow> error option"
  StripQuotes :: "string \<Rightarrow> string"
  urlParse :: "string \<Rightarrow> error + 'u"
  setValidateFalse :: "'u \<Rightarrow> 'u"
  ResolveReference :: "'u \<Rightarrow> 'u \<Rightarrow> 'u"
  urlString :: "'u \<Rightarrow> string"
  NewRequestErr :: "string \<Rightarrow> string \<Rightarrow> error option"
  NewVersion :: "string \<Rightarrow> error + 'v"
  Compare :: "'v \<Rightarrow> 'v \<Rightarrow> int"

section \<open>Backoff\<close>

definition DefaultBackoffMinDelay :: int where
  "DefaultBackoffMinDelay = 4"

definition DefaultBackoffMaxDelay :: int where
  "DefaultBackoffMaxDelay = 60"

definition DefaultBackoffDelayFactor :: real where
  "DefaultBackoffDelayFactor = 3"

text \<open>\<^verbatim>\<open>time.Second\<close>, in nanoseconds, and the wrap-around of a 64-bit signed product.\<close>

definition Second :: int where
  "Second = 1000000000"

definition wrap64 :: "int \<Rightarrow> int" where
  "wrap64 x = (x + 2 ^ 63) mod 2 ^ 64 - 2 ^ 63"

text \<open>The locals \<^verbatim>\<open>minDelay\<close>, \<^verbatim>\<open>maxDelay\<close> and \<^verbatim>\<open>factor\<close> of \<^verbatim>\<open>backoff\<close>.\<close>

definition minDelay :: "('u, 'x) Client_scheme \<Rightarrow> int" where
  "minDelay c =
     (if backoffMinDelay c \<noteq> 0 then wrap64 (backoffMinDelay c * Second)
      else DefaultBackoffMinDelay * Second)"

definition maxDelay :: "('u, 'x) Client_scheme \<Rightarrow> int" where
  "maxDelay c =
     (if backoffMaxDelay c \<noteq> 0 then wrap64 (backoffMaxDelay c * Second)
      else DefaultBackoffMaxDelay * Second)"

definition factor :: "('u, 'x) Client_scheme \<Rightarrow> real" where
  "factor c =
     (if backoffDelayFactor c \<noteq> 0 then backoffDelayFactor c else DefaultBackoffDelayFactor)"

text \<open>
  The value of the local \<^verbatim>\<open>backoff\<close> after the jitter line, for the attempt count and
  the number \<open>r\<close> drawn by \<^verbatim>\<open>rand.Float64()\<close>. \<^verbatim>\<open>math.Pow\<close> with an integral exponent
  and a base that is never zero is \<open>powi\<close>.
\<close>

definition backoffDelay :: "('u, 'x) Client_scheme \<Rightarrow> int \<Rightarrow> real \<Rightarrow> real" where
  "backoffDelay c attempts r =
     (let mn = real_of_int (minDelay c);
          b0 = mn * (factor c powi attempts);
          b1 = (if b0 > real_of_int (maxDelay c) then real_of_int (maxDelay c) else b0)
      in (r / 2 + 0.5) * (b1 - mn) + mn)"

text \<open>\<^verbatim>\<open>time.Duration(x)\<close> of a float: the fraction is dropped, towards zero.\<close>

definition toDuration :: "real \<Rightarrow> int" where
  "toDuration x = (if 0 \<le> x then \<lfloor>x\<rfloor> else \<lceil>x\<rceil>)"

definition backoff ::
  "('j, 'u, 'v) env \<Rightarrow> ('u, 'x) Client_scheme \<Rightarrow> int \<Rightarrow> world \<Rightarrow> bool \<times> world" where
  "backoff e c attempts w =
     (if attempts > maxRetries c then (False, w)
      else (True, w\<lparr>randCalls := Suc (randCalls w),
                    slept := slept w @ [toDuration (backoffDelay c attempts (Float64 e (randCalls w)))]\<rparr>))"

section \<open>The retrying executor\<close>

text \<open>
  One iteration of the loop of \<^verbatim>\<open>DoWithRetryFunc\<close> and the iterations after it;
  \<open>attempts\<close> is the loop counter. \<open>retryFunc\<close> is \<open>None\<close> for a nil callback. The
  result is the triple the Go function returns (payload, response, error; \<open>None\<close> is
  nil) and the world after the call.
  In the branch of a response other than 204, \<open>parsed\<close> is the result of
  \<^verbatim>\<open>container.ParseJSON\<close> when the status is 2xx (the call is not made otherwise),
  \<open>done\<close> says that the return inside the 2xx block is taken, and \<open>obj\<close>, \<open>err\<close> and
  \<open>retry\<close> are the values of the Go variables of these names at the test
  \<^verbatim>\<open>if retry\<close>: \<open>err\<close> is the error of \<^verbatim>\<open>ioutil.ReadAll\<close> unless \<^verbatim>\<open>ParseJSON\<close> has
  overwritten it.
\<close>

function DoLoop ::
  "('j, 'u, 'v) env \<Rightarrow> ('u, 'x) Client_scheme \<Rightarrow> request \<Rightarrow> ('j \<Rightarrow> bool) option \<Rightarrow> int \<Rightarrow> world
     \<Rightarrow> ('j option \<times> response option \<times> error option) \<times> world" where
  "DoLoop e c req retryFunc attempts w =
     (let w1 = w\<lparr>httpCalls := Suc (httpCalls w)\<rparr> in
      case httpDo e (httpCalls w) req of
        Inl err \<Rightarrow>
          (if \<not> fst (backoff e c attempts w1) then ((None, None, Some err), w1)
           else DoLoop e c req retryFunc (attempts + 1) (snd (backoff e c attempts w1)))
      | Inr resp \<Rightarrow>
          (if StatusCode resp = 204 then ((None, None, None), w1)
           else
             let parsed = (if StatusCode resp \<ge> 200 \<and> StatusCode resp < 300
                           then Some (ParseJSON e (Body resp)) else None);
                 obj = (case parsed of Some (Inr j) \<Rightarrow> Some j | _ \<Rightarrow> None);
                 err = (case parsed of Some (Inl pe) \<Rightarrow> Some pe | Some (Inr j) \<Rightarrow> None
                        | None \<Rightarrow> ReadErr resp);
                 done = (case parsed of
                           Some (Inr j) \<Rightarrow>
                             \<not> (case retryFunc of None \<Rightarrow> False | Some f \<Rightarrow> f j)
                         | _ \<Rightarrow> False);
                 retry = ((case parsed of Some (Inl pe) \<Rightarrow> True
                           | Some (Inr j) \<Rightarrow> \<not> done | None \<Rightarrow> False)
                          \<or> StatusCode resp = 429 \<or> StatusCode resp = 503)
             in if done then ((obj, Some resp, None), w1)
                else if retry then
                  (if \<not> fst (backoff e c attempts w1)
                   then ((obj, Some resp, Some (RequestFailed (StatusCode resp) attempts)), w1)
                   else DoLoop e c req retryFunc (attempts + 1) (snd (backoff e c attempts w1)))
                else ((None, Some resp, err), w1)))"
  by pat_completeness auto
termination
  by (relation "measure (\<lambda>(e, c, req, retryFunc, attempts, w). nat (maxRetries c + 1 - attempts))")
     (auto simp: backoff_def split: if_splits)

definition DoWithRetryFunc ::
  "('j, 'u, 'v) env \<Rightarrow> ('u, 'x) Client_scheme \<Rightarrow> request \<Rightarrow> ('j \<Rightarrow> bool) option \<Rightarrow> world
     \<Rightarrow> ('j option \<times> response option \<times> error option) \<times> world" where
  "DoWithRetryFunc e c req retryFunc w = DoLoop e c req retryFunc 1 w"

definition Do ::
  "('j, 'u, 'v) env \<Rightarrow> ('u, 'x) Client_scheme \<Rightarrow> request \<Rightarrow> world
     \<Rightarrow> ('j option \<times> response option \<times> error option) \<times> world" where
  "Do e c req w = DoWithRetryFunc e c req None w"

declare DoLoop.simps [simp del]

section \<open>Strings\<close>

definition HasPrefix :: "string \<Rightarrow> string \<Rightarrow> bool" where
  "HasPrefix s p = (take (length p) s = p)"

definition HasSuffix :: "string \<Rightarrow> string \<Rightarrow> bool" where
  "HasSuffix s p = (length p \<le> length s \<and> drop (length s - length p) s = p)"

definition TrimPrefix :: "string \<Rightarrow> string \<Rightarrow> string" where
  "TrimPrefix s p = (if HasPrefix s p then drop (length p) s else s)"

definition TrimSuffix :: "string \<Rightarrow> string \<Rightarrow> string" where
  "TrimSuffix s p = (if HasSuffix s p then take (length s - length p) s else s)"

text \<open>The double quote, and \<^verbatim>\<open>stripQuotes\<close>.\<close>

definition dq :: string where
  "dq = [CHR 0x22]"

definition stripQuotes :: "string \<Rightarrow> string" where
  "stripQuotes word =
     (if HasPrefix word dq \<and> HasSuffix word dq then TrimSuffix (TrimPrefix word dq) dq
      else word)"

text \<open>
  \<^verbatim>\<open>fmt.Sprintf(msoAuthPayload, u, p)\<close> and \<^verbatim>\<open>fmt.Sprintf(ndAuthPayload, u, p)\<close>:
  the two verbs \<^verbatim>\<open>%s\<close> of the constant are replaced by the arguments.
\<close>

definition authPayloadText :: "string \<Rightarrow> string \<Rightarrow> string \<Rightarrow> string \<Rightarrow> string" where
  "authPayloadText k1 k2 u p =
     ''{'' @ [CHR 0x0A, CHR 0x09] @ dq @ k1 @ dq @ '': '' @ dq @ u @ dq @ '','' @
     [CHR 0x0A, CHR 0x09] @ dq @ k2 @ dq @ '': '' @ dq @ p @ dq @ [CHR 0x0A] @ ''}''"

definition msoAuthPayload :: "string \<Rightarrow> string \<Rightarrow> string" where
  "msoAuthPayload u p = authPayloadText ''username'' ''password'' u p"

definition ndAuthPayload :: "string \<Rightarrow> string \<Rightarrow> string" where
  "ndAuthPayload u p = authPayloadText ''userName'' ''userPasswd'' u p"

section \<open>Building a request\<close>

text \<open>
  Modelled from the spec: \<^verbatim>\<open>InjectAuthenticationHeader\<close> is not in the source files.
  The header-injection step attaches whatever token currently exists; invoked before
  the first successful authentication it signals that the client is not authenticated.
\<close>

definition InjectAuthenticationHeader ::
  "('u, 'x) Client_scheme \<Rightarrow> request \<Rightarrow> string \<Rightarrow> request option \<times> error option" where
  "InjectAuthenticationHeader c req path =
     (case AuthToken c of
        None \<Rightarrow> (Some req, Some NotAuthenticated)
      | Some a \<Rightarrow>
          (Some (req\<lparr>Header := (Header req)(''Authorization'' \<mapsto> ''Bearer '' @ Token a)\<rparr>), None))"

text \<open>
  \<^verbatim>\<open>http.NewRequest\<close>: the library decides whether the method and the URL are
  acceptable (\<open>NewRequestErr\<close>); the request it builds has the method, the URL and the
  body it was given and no header.
\<close>

definition NewRequest ::
  "('j, 'u, 'v) env \<Rightarrow> string \<Rightarrow> string \<Rightarrow> string option \<Rightarrow> error + request" where
  "NewRequest e method url body =
     (case NewRequestErr e method url of
        Some err \<Rightarrow> Inl err
      | None \<Rightarrow> Inr \<lparr>Method = method, URL = url, ReqBody = body, Header = Map.empty\<rparr>)"

text \<open>The rewriting of the path at the head of \<^verbatim>\<open>MakeRestRequest\<close>.\<close>

definition gatewayPath :: "('u, 'x) Client_scheme \<Rightarrow> string \<Rightarrow> string" where
  "gatewayPath c path =
     (if platform c = ''nd'' \<and> path \<noteq> ''/login''
      then ''mso/'' @ (if HasPrefix path ''/'' then drop 1 path else path)
      else path)"

text \<open>
  The part of \<^verbatim>\<open>MakeRestRequest\<close> after \<^verbatim>\<open>http.NewRequest\<close> returned: the error
  check, the content type, the injection of the token.
\<close>

definition finishRequest ::
  "('u, 'x) Client_scheme \<Rightarrow> string \<Rightarrow> bool \<Rightarrow> error + request \<Rightarrow> request option \<times> error option" where
  "finishRequest c path authenticated r =
     (case r of
        Inl err \<Rightarrow> (None, Some err)
      | Inr req0 \<Rightarrow>
          (let req = req0\<lparr>Header := (Header req0)(''Content-Type'' \<mapsto> ''application/json'')\<rparr>
           in if authenticated then InjectAuthenticationHeader c req path
              else (Some req, None)))"

definition MakeRestRequest ::
  "('j, 'u, 'v) env \<Rightarrow> ('u, 'x) Client_scheme \<Rightarrow> string \<Rightarrow> string \<Rightarrow> 'j option \<Rightarrow> bool
     \<Rightarrow> (request option \<times> error option) outcome" where
  "MakeRestRequest e c method path0 body authenticated =
     (let path = gatewayPath c path0 in
      case urlParse e path of
        Inl err \<Rightarrow> Return (None, Some err)
      | Inr url0 \<Rightarrow>
          (let url = (if method = ''PATCH'' then setValidateFalse e url0 else url0);
               fURL = ResolveReference e (BaseURL c) url
           in if method = ''GET'' \<or> method = ''DELETE''
              then Return (finishRequest c path authenticated
                             (NewRequest e method (urlString e fURL) None))
              else (case Bytes e body of
                      Panic \<Rightarrow> Panic
                    | Return bs \<Rightarrow>
                        Return (finishRequest c path authenticated
                                  (NewRequest e method (urlString e fURL) (Some bs))))))"

section \<open>Authentication\<close>

text \<open>The loop of \<^verbatim>\<open>GetDomainId\<close> over the elements of \<^verbatim>\<open>domains\<close>, from index \<open>i\<close>.\<close>

function domainScan ::
  "('j, 'u, 'v) env \<Rightarrow> 'j option \<Rightarrow> string \<Rightarrow> int \<Rightarrow> int \<Rightarrow> (string \<times> error option) outcome" where
  "domainScan e obj dname count i =
     (if i < count then
        (case ArrayElement e obj i ''domains'' of
           Panic \<Rightarrow> Panic
         | Return (Inl err) \<Rightarrow> Return ('''', Some err)
         | Return (Inr domainCont) \<Rightarrow>
             (if StripQuotes e (FieldString e domainCont ''name'') = dname
              then Return (StripQuotes e (FieldString e domainCont ''id''), None)
              else domainScan e obj dname count (i + 1)))
      else Return ('''', Some (DomainNotFound dname)))"
  by pat_completeness auto
termination
  by (relation "measure (\<lambda>(e, obj, dname, count, i). nat (count - i))") auto

declare domainScan.simps [simp del]

definition GetDomainId ::
  "('j, 'u, 'v) env \<Rightarrow> ('u, 'x) Client_scheme \<Rightarrow> string \<Rightarrow> world
     \<Rightarrow> ((string \<times> error option) \<times> world) outcome" where
  "GetDomainId e c dname w =
     (case MakeRestRequest e c ''GET'' ''/api/v1/auth/login-domains'' None False of
        Panic \<Rightarrow> Panic
      | Return (_, Some err) \<Rightarrow> Return (('''', Some err), w)
      | Return (None, None) \<Rightarrow> Panic
      | Return (Some req, None) \<Rightarrow>
          (case Do e c req w of
             ((obj, _, Some err), w1) \<Rightarrow> Return (('''', Some err), w1)
           | ((obj, _, None), w1) \<Rightarrow>
               (case CheckForErrors e obj ''GET'' of
                  Some err \<Rightarrow> Return (('''', Some err), w1)
                | None \<Rightarrow>
                    (case ArrayCount e obj ''domains'' of
                       Panic \<Rightarrow> Panic
                     | Return (Inl err) \<Rightarrow> Return (('''', Some err), w1)
                     | Return (Inr count) \<Rightarrow>
                         (case domainScan e obj dname count 0 of
                            Panic \<Rightarrow> Panic
                          | Return r \<Rightarrow> Return (r, w1))))))"

text \<open>
  \<^verbatim>\<open>Authenticate\<close> from the assignment \<^verbatim>\<open>c.skipLoggingPayload = true\<close> on: \<open>c\<close> is the
  client and \<open>body\<close> the login payload built before it. A nil request with a nil error
  cannot come back from \<^verbatim>\<open>MakeRestRequest\<close>; \<^verbatim>\<open>Do\<close> would dereference it.
  The write to the header of the request after the exchange changes nothing the
  function returns or keeps.
\<close>

definition loginExchange ::
  "('j, 'u, 'v) env \<Rightarrow> ('u, 'x) Client_scheme \<Rightarrow> string \<Rightarrow> 'j \<Rightarrow> world
     \<Rightarrow> (error option \<times> ('u, 'x) Client_scheme \<times> world) outcome" where
  "loginExchange e c path body w =
     (let c1 = c\<lparr>skipLoggingPayload := True\<rparr> in
      case MakeRestRequest e c1 ''POST'' path (Some body) False of
        Panic \<Rightarrow> Panic
      | Return (_, Some err) \<Rightarrow> Return (Some err, c1, w)
      | Return (None, None) \<Rightarrow> Panic
      | Return (Some req, None) \<Rightarrow>
          (case Do e c1 req w of
             ((obj, _, err), w1) \<Rightarrow>
               (let c2 = c1\<lparr>skipLoggingPayload := False\<rparr> in
                case err of
                  Some er \<Rightarrow> Return (Some er, c2, w1)
                | None \<Rightarrow>
                    (case obj of
                       None \<Rightarrow> Return (Some (ErrorNew ''Empty response''), c2, w1)
                     | Some j \<Rightarrow>
                         (let token = StripQuotes e (FieldString e j ''token'') in
                          if token = '''' \<or> token = ''{}''
                          then Return (Some (ErrorNew ''Invalid Username or Password''), c2, w1)
                          else
                            (let a0 = (case AuthToken c2 of
                                         None \<Rightarrow> \<lparr>Token = '''', Expiry = 0\<rparr>
                                       | Some a \<Rightarrow> a);
                                 a1 = CalculateExpiry (timeNow e w1) 1200
                                        (a0\<lparr>Token := stripQuotes token\<rparr>)
                             in Return (None, c2\<lparr>AuthToken := Some a1\<rparr>, w1)))))))"

text \<open>
  \<^verbatim>\<open>Authenticate\<close> up to the assignment \<^verbatim>\<open>c.skipLoggingPayload = true\<close>: either it has
  returned (\<open>Inl\<close>: the error, the client and the world at the return), or it goes on
  (\<open>Inr\<close>) with the client, the login path, the login payload and the world.
\<close>

definition loginPrepare ::
  "('j, 'u, 'v) env \<Rightarrow> ('u, 'x) Client_scheme \<Rightarrow> world
     \<Rightarrow> ((error option \<times> ('u, 'x) Client_scheme \<times> world)
          + (('u, 'x) Client_scheme \<times> string \<times> 'j \<times> world)) outcome" where
  "loginPrepare e c0 w =
     (let c = (if platform c0 = ''nd'' \<and> domain c0 = '''' then c0\<lparr>domain := ''DefaultAuth''\<rparr>
               else c0);
          path = (if platform c0 = ''nd'' then ''/login'' else ''/api/v1/auth/login'');
          authPayload = (if platform c0 = ''nd'' then ndAuthPayload (username c) (password c)
                         else msoAuthPayload (username c) (password c))
      in case ParseJSON e authPayload of
           Inl err \<Rightarrow> Return (Inl (Some err, c, w))
         | Inr body \<Rightarrow>
             (if domain c \<noteq> '''' then
                (if platform c = ''nd''
                 then Return (Inr (c, path, SetKey e body (domain c) ''domain'', w))
                 else (case GetDomainId e c (domain c) w of
                         Panic \<Rightarrow> Panic
                       | Return ((domainId, Some err), w1) \<Rightarrow> Return (Inl (Some err, c, w1))
                       | Return ((domainId, None), w1) \<Rightarrow>
                           Return (Inr (c, path, SetKey e body domainId ''domainId'', w1))))
              else Return (Inr (c, path, body, w))))"

definition Authenticate ::
  "('j, 'u, 'v) env \<Rightarrow> ('u, 'x) Client_scheme \<Rightarrow> world
     \<Rightarrow> (error option \<times> ('u, 'x) Client_scheme \<times> world) outcome" where
  "Authenticate e c0 w =
     (case loginPrepare e c0 w of
        Panic \<Rightarrow> Panic
      | Return (Inl r) \<Rightarrow> Return r
      | Return (Inr (c, path, body, w1)) \<Rightarrow> loginExchange e c path body w1)"

section \<open>Versions\<close>

definition GetVersion ::
  "('j, 'u, 'v) env \<Rightarrow> ('u, 'x) Client_scheme \<Rightarrow> world
     \<Rightarrow> ((string \<times> error option) \<times> ('u, 'x) Client_scheme \<times> world) outcome" where
  "GetVersion e c w =
     (case MakeRestRequest e c ''GET'' ''/api/v1/platform/version'' None True of
        Panic \<Rightarrow> Panic
      | Return (_, Some err) \<Rightarrow> Return ((''unknown'', Some err), c, w)
      | Return (None, None) \<Rightarrow> Panic
      | Return (Some req, None) \<Rightarrow>
          (case Do e c req w of
             ((obj, _, Some err), w1) \<Rightarrow> Return ((''unknown'', Some err), c, w1)
           | ((obj, _, None), w1) \<Rightarrow>
               (case CheckForErrors e obj ''GET'' of
                  Some err \<Rightarrow> Return ((''unknown'', Some err), c, w1)
                | None \<Rightarrow>
                    (case SearchString e obj ''version'' of
                       Panic \<Rightarrow> Panic
                     | Return s \<Rightarrow>
                         (let ver = stripQuotes s in
                          if ver = ''''
                          then Return ((''unknown'',
                                        Some (ErrorNew ''Unable to identify version'')), c, w1)
                          else Return ((ver, None), c\<lparr>version := ver\<rparr>, w1))))))"

text \<open>
  \<^verbatim>\<open>CompareVersion\<close>. The values \<^verbatim>\<open>GetVersion\<close> returns are dropped by the caller;
  what it stored in the client is kept.
\<close>

definition CompareVersion ::
  "('j, 'u, 'v) env \<Rightarrow> ('u, 'x) Client_scheme \<Rightarrow> string \<Rightarrow> world
     \<Rightarrow> ((int \<times> error option) \<times> ('u, 'x) Client_scheme \<times> world) outcome" where
  "CompareVersion e c0 v w =
     (case (if version c0 = ''''
            then (case GetVersion e c0 w of
                    Panic \<Rightarrow> Panic
                  | Return (_, c1, w1) \<Rightarrow> Return (c1, w1))
            else Return (c0, w)) of
        Panic \<Rightarrow> Panic
      | Return (c, w1) \<Rightarrow>
          (if version c = ''unknown''
           then Return ((0, Some (ErrorNew ''Could not retrieve version'')), c, w1)
           else (case NewVersion e (version c) of
                   Inl _ \<Rightarrow> Return ((0, Some (ErrorNew ''Could not parse retrieved version'')), c, w1)
                 | Inr v1 \<Rightarrow>
                     (case NewVersion e v of
                        Inl _ \<Rightarrow> Return ((0, Some (ErrorNew ''Could not parse version'')), c, w1)
                      | Inr v2 \<Rightarrow> Return ((Compare e v2 v1, None), c, w1)))))"

section \<open>Settings of the client\<close>

text \<open>
  Two clients agree on the settings that no method of the client assigns: all fields
  but \<^verbatim>\<open>AuthToken\<close>, \<^verbatim>\<open>domain\<close>, \<^verbatim>\<open>version\<close> and \<^verbatim>\<open>skipLoggingPayload\<close>.
\<close>

definition sameSettings ::
  "('u, 'x) Client_scheme \<Rightarrow> ('u, 'x) Client_scheme \<Rightarrow> bool" where
  "sameSettings c c' =
     (BaseURL c' = BaseURL c \<and> username c' = username c \<and> password c' = password c
      \<and> insecure c' = insecure c \<and> reqTimeoutSet c' = reqTimeoutSet c
      \<and> reqTimeoutVal c' = reqTimeoutVal c \<and> proxyUrl c' = proxyUrl c
      \<and> platform c' = platform c \<and> maxRetries c' = maxRetries c
      \<and> backoffMinDelay c' = backoffMinDelay c \<and> backoffMaxDelay c' = backoffMaxDelay c
      \<and> backoffDelayFactor c' = backoffDelayFactor c)"

section \<open>A concrete environment\<close>

text \<open>
  The theorems below hold for every environment. To run the definitions on concrete
  inputs, here is one small environment: a container is a list of keys with the JSON
  text of their values, a URL is its text, a version is a number, and the server
  answers every request with status 200 and a token.
\<close>

definition tokenEmptyText :: string where
  "tokenEmptyText = ''{'' @ dq @ ''token'' @ dq @ '': '' @ dq @ dq @ ''}''"

definition tokenText :: string where
  "tokenText = ''{'' @ dq @ ''token'' @ dq @ '': '' @ dq @ ''abc'' @ dq @ ''}''"

definition versionText :: string where
  "versionText = ''{'' @ dq @ ''version'' @ dq @ '': '' @ dq @ ''4.2.1'' @ dq @ ''}''"

definition sampleParse :: "string \<Rightarrow> error + (string \<times> string) list" where
  "sampleParse s =
     (if s = tokenEmptyText then Inr [(''token'', dq @ dq)]
      else if s = tokenText then Inr [(''token'', dq @ ''abc'' @ dq)]
      else if s = versionText then Inr [(''version'', dq @ ''4.2.1'' @ dq)]
      else if HasPrefix s ''{'' then Inr []
      else Inl (LibError ''invalid character''))"

definition sampleField :: "(string \<times> string) list \<Rightarrow> string \<Rightarrow> string" where
  "sampleField j k = (case map_of j k of Some v \<Rightarrow> v | None \<Rightarrow> ''{}'')"

definition sampleResponse :: "int \<Rightarrow> string \<Rightarrow> response" where
  "sampleResponse code text = \<lparr>StatusCode = code, Body = text, ReadErr = None\<rparr>"

definition sampleEnv :: "((string \<times> string) list, string, nat) env" where
  "sampleEnv =
     \<lparr>httpDo = (\<lambda>k req. Inr (sampleResponse 200 tokenText)),
      Float64 = (\<lambda>k. 0),
      timeNow = (\<lambda>w. 0),
      ParseJSON = sampleParse,
      Bytes = (\<lambda>b. case b of None \<Rightarrow> Panic | Some j \<Rightarrow> Return (concat (map fst j))),
      SetKey = (\<lambda>j v k. (k, v) # j),
      FieldString = sampleField,
      SearchString = (\<lambda>b k. case b of None \<Rightarrow> Return ''{}'' | Some j \<Rightarrow> Return (sampleField j k)),
      ArrayCount = (\<lambda>b k. Return (Inl (LibError ''not an array''))),
      ArrayElement = (\<lambda>b i k. Return (Inl (LibError ''not an array''))),
      CheckForErrors = (\<lambda>b m. None),
      StripQuotes = stripQuotes,
      urlParse = Inr,
      setValidateFalse = (\<lambda>u. u @ ''?validate=false''),
      ResolveReference = (\<lambda>b r. b @ r),
      urlString = (\<lambda>u. u),
      NewRequestErr = (\<lambda>m u. None),
      NewVersion = (\<lambda>s. if s = ''1.0.0'' then Inr 1 else if s = ''2.0.0'' then Inr 2
                         else Inl (LibError ''Malformed version'')),
      Compare = (\<lambda>a b. if a < b then - 1 else if a = b then 0 else 1)\<rparr>"

definition sampleClient :: "string Client" where
  "sampleClient =
     \<lparr>BaseURL = ''https://mso.example.com'', AuthToken = None, username = ''admin'',
      password = ''secret'', insecure = False, reqTimeoutSet = False, reqTimeoutVal = 0,
      proxyUrl = '''', domain = '''', platform = '''', version = '''',
      skipLoggingPayload = False, maxRetries = 0, backoffMinDelay = 0,
      backoffMaxDelay = 0, backoffDelayFactor = 0\<rparr>"

definition sampleRequest :: request where
  "sampleRequest =
     \<lparr>Method = ''GET'', URL = ''https://mso.example.com/api/v1/schemas'', ReqBody = None,
      Header = Map.empty\<rparr>"

definition sampleWorld :: world where
  "sampleWorld = \<lparr>httpCalls = 0, randCalls = 0, slept = []\<rparr>"

text \<open>Servers that answer every request with 503, with 404, with 204, with an empty token.\<close>

definition busyEnv :: "((string \<times> string) list, string, nat) env" where
  "busyEnv = sampleEnv\<lparr>httpDo := (\<lambda>k req. Inr (sampleResponse 503 ''''))\<rparr>"

definition missingEnv :: "((string \<times> string) list, string, nat) env" where
  "missingEnv = sampleEnv\<lparr>httpDo := (\<lambda>k req. Inr (sampleResponse 404 ''''))\<rparr>"

definition noContentEnv :: "((string \<times> string) list, string, nat) env" where
  "noContentEnv = sampleEnv\<lparr>httpDo := (\<lambda>k req. Inr (sampleResponse 204 ''''))\<rparr>"

definition emptyTokenEnv :: "((string \<times> string) list, string, nat) env" where
  "emptyTokenEnv = sampleEnv\<lparr>httpDo := (\<lambda>k req. Inr (sampleResponse 200 tokenEmptyText))\<rparr>"

text \<open>
  An environment whose \<^verbatim>\<open>http.NewRequest\<close> refuses every request, a client of the
  gateway platform constructed with the payload logging suppressed, and a client that
  holds a token of an earlier login.
\<close>

definition refusingEnv :: "((string \<times> string) list, string, nat) env" where
  "refusingEnv = sampleEnv\<lparr>NewRequestErr := (\<lambda>m u. Some (LibError ''invalid URL''))\<rparr>"

definition ndClient :: "string Client" where
  "ndClient = sampleClient\<lparr>platform := ''nd'', skipLoggingPayload := True\<rparr>"

definition loggedInClient :: "string Client" where
  "loggedInClient = sampleClient\<lparr>AuthToken := Some \<lparr>Token = ''old'', Expiry = 7\<rparr>\<rparr>"

text \<open>The login request the client builds in this environment.\<close>

definition loginRequest :: "string \<Rightarrow> string \<Rightarrow> request" where
  "loginRequest url text =
     \<lparr>Method = ''POST'', URL = url, ReqBody = Some text,
      Header = [''Content-Type'' \<mapsto> ''application/json'']\<rparr>"

text \<open>A server that answers every request with the version of the platform.\<close>

definition versionEnv :: "((string \<times> string) list, string, nat) env" where
  "versionEnv = sampleEnv\<lparr>httpDo := (\<lambda>k req. Inr (sampleResponse 200 versionText))\<rparr>"

section \<open>Properties of the backoff\<close>






section \<open>Properties of the retrying executor\<close>

text \<open>
  C7. When the first response is HTTP 200 with a body that parses as JSON and no retry
  predicate is given (or the predicate returns false for the payload), the executor makes
  exactly one HTTP attempt, sleeps for no backoff and returns the decoded payload, the
  response and a nil error.
\<close>

theorem Do_success_first_attempt:
  assumes "httpDo e (httpCalls w) req = Inr resp"
    and "StatusCode resp = 200"
    and "ParseJSON e (Body resp) = Inr j"
    and "retryFunc = None \<or> (\<exists>f. retryFunc = Some f \<and> \<not> f j)"
  shows "DoWithRetryFunc e c req retryFunc w
         = ((Some j, Some resp, None), w\<lparr>httpCalls := Suc (httpCalls w)\<rparr>)"
  unfolding DoWithRetryFunc_def
  apply (subst DoLoop.simps)
  using assms by (auto simp: Let_def)

lemma sampleParse_tokenText: "sampleParse tokenText = Inr [(''token'', dq @ ''abc'' @ dq)]"
  by (simp add: sampleParse_def tokenText_def tokenEmptyText_def dq_def)

theorem Do_success_first_attempt_witness:
  "DoWithRetryFunc sampleEnv sampleClient sampleRequest None sampleWorld
   = ((Some [(''token'', dq @ ''abc'' @ dq)], Some (sampleResponse 200 tokenText), None),
      sampleWorld\<lparr>httpCalls := 1\<rparr>)"
proof -
  have h1: "httpDo sampleEnv (httpCalls sampleWorld) sampleRequest
            = Inr (sampleResponse 200 tokenText)"
    by (simp add: sampleEnv_def)
  have h2: "StatusCode (sampleResponse 200 tokenText) = 200"
    by (simp add: sampleResponse_def)
  have h3: "ParseJSON sampleEnv (Body (sampleResponse 200 tokenText))
            = Inr [(''token'', dq @ ''abc'' @ dq)]"
    by (simp add: sampleEnv_def sampleResponse_def sampleParse_tokenText)
  have h4: "(None :: ((string \<times> string) list \<Rightarrow> bool) option) = None
            \<or> (\<exists>f. None = Some f \<and> \<not> f [(''token'', dq @ ''abc'' @ dq)])"
    by simp
  from Do_success_first_attempt [OF h1 h2 h3 h4, of sampleClient]
  show ?thesis by (simp add: sampleWorld_def)
qed

lemma DoLoop_retry_status:
  assumes "httpDo e (httpCalls w) req = Inr resp"
    and "StatusCode resp = 429 \<or> StatusCode resp = 503"
  shows "DoLoop e c req rf attempts w =
     (if attempts > maxRetries c
      then ((None, Some resp, Some (RequestFailed (StatusCode resp) attempts)),
            w\<lparr>httpCalls := Suc (httpCalls w)\<rparr>)
      else DoLoop e c req rf (attempts + 1)
             (w\<lparr>httpCalls := Suc (httpCalls w), randCalls := Suc (randCalls w),
                slept := slept w @ [toDuration (backoffDelay c attempts (Float64 e (randCalls w)))]\<rparr>))"
  apply (subst DoLoop.simps)
  using assms by (auto simp: backoff_def Let_def)

lemma DoLoop_retry_transport:
  assumes "httpDo e (httpCalls w) req = Inl err"
  shows "DoLoop e c req rf attempts w =
     (if attempts > maxRetries c
      then ((None, None, Some err), w\<lparr>httpCalls := Suc (httpCalls w)\<rparr>)
      else DoLoop e c req rf (attempts + 1)
             (w\<lparr>httpCalls := Suc (httpCalls w), randCalls := Suc (randCalls w),
                slept := slept w @ [toDuration (backoffDelay c attempts (Float64 e (randCalls w)))]\<rparr>))"
  apply (subst DoLoop.simps)
  using assms by (auto simp: backoff_def Let_def)

lemma DoLoop_all_retryable:
  assumes "\<forall>k\<le>m. (\<exists>err. httpDo e (httpCalls w + k) req = Inl err)
             \<or> (\<exists>r. httpDo e (httpCalls w + k) req = Inr r
                    \<and> (StatusCode r = 429 \<or> StatusCode r = 503))"
    and "attempts + int m = maxRetries c + 1"
    and "httpDo e (httpCalls w + m) req = Inr resp"
  shows "fst (DoLoop e c req rf attempts w)
           = (None, Some resp, Some (RequestFailed (StatusCode resp) (maxRetries c + 1)))
       \<and> httpCalls (snd (DoLoop e c req rf attempts w)) = httpCalls w + m + 1
       \<and> randCalls (snd (DoLoop e c req rf attempts w)) = randCalls w + m
       \<and> length (slept (snd (DoLoop e c req rf attempts w))) = length (slept w) + m"
  using assms
proof (induction m arbitrary: attempts w)
  case 0
  from "0.prems"(1) "0.prems"(3) have st: "StatusCode resp = 429 \<or> StatusCode resp = 503"
    by auto
  have gt: "attempts > maxRetries c" using "0.prems"(2) by simp
  have "DoLoop e c req rf attempts w =
          ((None, Some resp, Some (RequestFailed (StatusCode resp) attempts)),
            w\<lparr>httpCalls := Suc (httpCalls w)\<rparr>)"
    using DoLoop_retry_status [of e w req resp c rf attempts] "0.prems"(3) st gt by simp
  moreover have "attempts = maxRetries c + 1" using "0.prems"(2) by simp
  ultimately show ?case by simp
next
  case (Suc m)
  let ?w' = "w\<lparr>httpCalls := Suc (httpCalls w), randCalls := Suc (randCalls w),
                slept := slept w @ [toDuration (backoffDelay c attempts (Float64 e (randCalls w)))]\<rparr>"
  have le: "\<not> attempts > maxRetries c" using Suc.prems(2) by simp
  have first: "(\<exists>err. httpDo e (httpCalls w) req = Inl err)
             \<or> (\<exists>r. httpDo e (httpCalls w) req = Inr r
                    \<and> (StatusCode r = 429 \<or> StatusCode r = 503))"
    using Suc.prems(1) [rule_format, of 0] by simp
  have step: "DoLoop e c req rf attempts w = DoLoop e c req rf (attempts + 1) ?w'"
  proof (rule disjE [OF first])
    assume "\<exists>err. httpDo e (httpCalls w) req = Inl err"
    then obtain err where "httpDo e (httpCalls w) req = Inl err" ..
    from DoLoop_retry_transport [OF this, of c rf attempts] le show ?thesis by simp
  next
    assume "\<exists>r. httpDo e (httpCalls w) req = Inr r
                \<and> (StatusCode r = 429 \<or> StatusCode r = 503)"
    then obtain r where r: "httpDo e (httpCalls w) req = Inr r"
      "StatusCode r = 429 \<or> StatusCode r = 503" by blast
    from DoLoop_retry_status [OF r, of c rf attempts] le show ?thesis by simp
  qed
  have a: "\<forall>k\<le>m. (\<exists>err. httpDo e (httpCalls ?w' + k) req = Inl err)
             \<or> (\<exists>r. httpDo e (httpCalls ?w' + k) req = Inr r
                    \<and> (StatusCode r = 429 \<or> StatusCode r = 503))"
  proof (intro allI impI)
    fix k assume "k \<le> m"
    then have "Suc k \<le> Suc m" by simp
    from Suc.prems(1) [rule_format, OF this]
    show "(\<exists>err. httpDo e (httpCalls ?w' + k) req = Inl err)
             \<or> (\<exists>r. httpDo e (httpCalls ?w' + k) req = Inr r
                    \<and> (StatusCode r = 429 \<or> StatusCode r = 503))"
      by simp
  qed
  have b: "(attempts + 1) + int m = maxRetries c + 1" using Suc.prems(2) by simp
  have c: "httpDo e (httpCalls ?w' + m) req = Inr resp" using Suc.prems(3) by simp
  from Suc.IH [OF a b c] show ?case unfolding step by simp
qed

text \<open>
  C2. With \<open>maxRetries = n \<ge> 1\<close>, when each of the first \<open>n + 1\<close> attempts ends in a
  transport failure or in a response with status 429 or 503, and the last of them in
  such a response, the executor sleeps for exactly \<open>n\<close> backoffs, makes exactly \<open>n + 1\<close>
  HTTP attempts and returns an error that carries the status code and the attempt count
  \<open>n + 1\<close>. The one counter, started at 1, counts the retries after transport failures
  and those after status codes alike. A request answered by 503 (or 429) on every
  attempt is the case where every attempt is such a response.
\<close>

theorem retries_exhausted_after_maxRetries:
  assumes "1 \<le> maxRetries c"
    and "\<forall>k\<le>nat (maxRetries c).
           (\<exists>err. httpDo e (httpCalls w + k) req = Inl err)
           \<or> (\<exists>r. httpDo e (httpCalls w + k) req = Inr r
                  \<and> (StatusCode r = 429 \<or> StatusCode r = 503))"
    and "httpDo e (httpCalls w + nat (maxRetries c)) req = Inr resp"
  shows "fst (DoWithRetryFunc e c req rf w)
           = (None, Some resp, Some (RequestFailed (StatusCode resp) (maxRetries c + 1)))
       \<and> httpCalls (snd (DoWithRetryFunc e c req rf w)) = httpCalls w + nat (maxRetries c) + 1
       \<and> randCalls (snd (DoWithRetryFunc e c req rf w)) = randCalls w + nat (maxRetries c)
       \<and> length (slept (snd (DoWithRetryFunc e c req rf w)))
           = length (slept w) + nat (maxRetries c)"
proof -
  have "1 + int (nat (maxRetries c)) = maxRetries c + 1" using assms(1) by simp
  from DoLoop_all_retryable [OF assms(2) this assms(3)]
  show ?thesis by (simp add: DoWithRetryFunc_def)
qed

lemma DoLoop_other_status:
  assumes "httpDo e (httpCalls w) req = Inr resp"
    and "\<not> (200 \<le> StatusCode resp \<and> StatusCode resp < 300)"
    and "StatusCode resp \<noteq> 429" and "StatusCode resp \<noteq> 503"
  shows "DoLoop e c req rf attempts w
         = ((None, Some resp, ReadErr resp), w\<lparr>httpCalls := Suc (httpCalls w)\<rparr>)"
  apply (subst DoLoop.simps)
  using assms by (auto simp: Let_def)

lemma DoLoop_no_content:
  assumes "httpDo e (httpCalls w) req = Inr resp" and "StatusCode resp = 204"
  shows "DoLoop e c req rf attempts w
         = ((None, None, None), w\<lparr>httpCalls := Suc (httpCalls w)\<rparr>)"
  apply (subst DoLoop.simps)
  using assms by (simp add: Let_def)

theorem retries_exhausted_after_maxRetries_witness:
  "fst (DoWithRetryFunc busyEnv (sampleClient\<lparr>maxRetries := 2\<rparr>) sampleRequest None sampleWorld)
     = (None, Some (sampleResponse 503 ''''), Some (RequestFailed 503 3))
   \<and> httpCalls (snd (DoWithRetryFunc busyEnv (sampleClient\<lparr>maxRetries := 2\<rparr>) sampleRequest
                        None sampleWorld)) = 3
   \<and> length (slept (snd (DoWithRetryFunc busyEnv (sampleClient\<lparr>maxRetries := 2\<rparr>) sampleRequest
                             None sampleWorld))) = 2"
proof -
  let ?c = "sampleClient\<lparr>maxRetries := 2\<rparr>"
  have h1: "1 \<le> maxRetries ?c" by simp
  have h2: "\<forall>k\<le>nat (maxRetries ?c).
           (\<exists>err. httpDo busyEnv (httpCalls sampleWorld + k) sampleRequest = Inl err)
           \<or> (\<exists>r. httpDo busyEnv (httpCalls sampleWorld + k) sampleRequest = Inr r
                  \<and> (StatusCode r = 429 \<or> StatusCode r = 503))"
    by (simp add: busyEnv_def sampleResponse_def)
  have h3: "httpDo busyEnv (httpCalls sampleWorld + nat (maxRetries ?c)) sampleRequest
            = Inr (sampleResponse 503 '''')"
    by (simp add: busyEnv_def)
  from retries_exhausted_after_maxRetries [OF h1 h2 h3, of None]
  show ?thesis by (simp add: sampleWorld_def sampleResponse_def)
qed

text \<open>
  C6, as stated, fails: with the option for the maximal number of retries left unset
  the field is zero, the counter 1 of the first attempt already exceeds it, and a
  response 503 ends the loop after the first attempt, with no sleep.
\<close>

theorem unset_maxRetries_first_503_is_final:
  "DoWithRetryFunc busyEnv sampleClient sampleRequest None sampleWorld
   = ((None, Some (sampleResponse 503 ''''), Some (RequestFailed 503 1)),
      \<lparr>httpCalls = 1, randCalls = 0, slept = []\<rparr>)"
proof -
  have h1: "httpDo busyEnv (httpCalls sampleWorld) sampleRequest = Inr (sampleResponse 503 '''')"
    by (simp add: busyEnv_def)
  have h2: "StatusCode (sampleResponse 503 '''') = 429 \<or> StatusCode (sampleResponse 503 '''') = 503"
    by (simp add: sampleResponse_def)
  have h3: "maxRetries sampleClient = 0" by (simp add: sampleClient_def)
  from DoLoop_retry_status [OF h1 h2, of sampleClient None 1] h3
  show ?thesis by (simp add: DoWithRetryFunc_def sampleWorld_def sampleResponse_def)
qed

text \<open>
  C6, amended. With the option for the maximal number of retries left unset (the field
  is zero) the executor does not retry: a retryable outcome of the first attempt (a
  transport error, a status 429 or 503, a 2xx body that does not parse, a 2xx payload
  the predicate of the caller rejects) ends the loop at that attempt, with one HTTP
  call and no backoff sleep, and a non-nil error is returned.
\<close>

theorem unset_maxRetries_no_retry:
  assumes "maxRetries c = 0"
    and "(\<exists>err. httpDo e (httpCalls w) req = Inl err)
         \<or> (\<exists>r. httpDo e (httpCalls w) req = Inr r
                \<and> (StatusCode r = 429 \<or> StatusCode r = 503
                    \<or> (200 \<le> StatusCode r \<and> StatusCode r < 300 \<and> StatusCode r \<noteq> 204
                        \<and> ((\<exists>pe. ParseJSON e (Body r) = Inl pe)
                            \<or> (\<exists>j f. ParseJSON e (Body r) = Inr j \<and> rf = Some f \<and> f j)))))"
  shows "snd (DoWithRetryFunc e c req rf w) = w\<lparr>httpCalls := Suc (httpCalls w)\<rparr>
       \<and> snd (snd (fst (DoWithRetryFunc e c req rf w))) \<noteq> None"
proof -
  have "\<exists>r. DoLoop e c req rf 1 w = (r, w\<lparr>httpCalls := Suc (httpCalls w)\<rparr>)
            \<and> snd (snd r) \<noteq> None"
    apply (subst DoLoop.simps)
    using assms by (auto simp: Let_def backoff_def)
  then show ?thesis by (auto simp: DoWithRetryFunc_def)
qed

theorem unset_maxRetries_no_retry_witness:
  "snd (DoWithRetryFunc busyEnv sampleClient sampleRequest None sampleWorld)
     = \<lparr>httpCalls = 1, randCalls = 0, slept = []\<rparr>
   \<and> snd (snd (fst (DoWithRetryFunc busyEnv sampleClient sampleRequest None sampleWorld))) \<noteq> None"
proof -
  have h1: "maxRetries sampleClient = 0" by (simp add: sampleClient_def)
  have h2: "(\<exists>err. httpDo busyEnv (httpCalls sampleWorld) sampleRequest = Inl err)
         \<or> (\<exists>r. httpDo busyEnv (httpCalls sampleWorld) sampleRequest = Inr r
                \<and> (StatusCode r = 429 \<or> StatusCode r = 503
                    \<or> (200 \<le> StatusCode r \<and> StatusCode r < 300 \<and> StatusCode r \<noteq> 204
                        \<and> ((\<exists>pe. ParseJSON busyEnv (Body r) = Inl pe)
                            \<or> (\<exists>j f. ParseJSON busyEnv (Body r) = Inr j
                                     \<and> (None :: ((string \<times> string) list \<Rightarrow> bool) option) = Some f
                                     \<and> f j)))))"
    by (simp add: busyEnv_def sampleResponse_def)
  from unset_maxRetries_no_retry [OF h1 h2]
  show ?thesis by (simp add: sampleWorld_def)
qed

text \<open>
  C1, as stated, fails: a response 404 whose body was read without error ends the loop
  at once, but the error returned is nil, and so is the payload.
\<close>

theorem status_404_returns_nil_error:
  "DoWithRetryFunc missingEnv sampleClient sampleRequest None sampleWorld
   = ((None, Some (sampleResponse 404 ''''), None),
      \<lparr>httpCalls = 1, randCalls = 0, slept = []\<rparr>)"
  unfolding DoWithRetryFunc_def
  apply (subst DoLoop.simps)
  by (simp add: missingEnv_def sampleEnv_def sampleResponse_def sampleWorld_def Let_def)

text \<open>
  C1, amended. When the response of an attempt has a status code that is not 2xx, not
  429 and not 503 (404, say), the executor ends at that attempt, without any backoff
  sleep, and returns a nil payload with the response. A response 204 ends it with a
  nil payload, a nil response and a nil error: a nil payload together with a nil error
  is a result the executor does return.
\<close>

theorem other_status_ends_the_loop:
  assumes "httpDo e (httpCalls w) req = Inr resp"
  shows "(\<not> (200 \<le> StatusCode resp \<and> StatusCode resp < 300)
          \<and> StatusCode resp \<noteq> 429 \<and> StatusCode resp \<noteq> 503
          \<longrightarrow> fst (fst (DoWithRetryFunc e c req rf w)) = None
              \<and> fst (snd (fst (DoWithRetryFunc e c req rf w))) = Some resp
              \<and> snd (DoWithRetryFunc e c req rf w) = w\<lparr>httpCalls := Suc (httpCalls w)\<rparr>)
       \<and> (StatusCode resp = 204
          \<longrightarrow> DoWithRetryFunc e c req rf w
              = ((None, None, None), w\<lparr>httpCalls := Suc (httpCalls w)\<rparr>))"
proof -
  have a: "DoLoop e c req rf 1 w
           = ((None, Some resp, ReadErr resp), w\<lparr>httpCalls := Suc (httpCalls w)\<rparr>)"
    if "\<not> (200 \<le> StatusCode resp \<and> StatusCode resp < 300)"
      and "StatusCode resp \<noteq> 429" and "StatusCode resp \<noteq> 503"
    using that assms by (simp add: DoLoop_other_status)
  have b: "DoLoop e c req rf 1 w = ((None, None, None), w\<lparr>httpCalls := Suc (httpCalls w)\<rparr>)"
    if "StatusCode resp = 204"
    using that assms by (simp add: DoLoop_no_content)
  show ?thesis unfolding DoWithRetryFunc_def using a b by auto
qed

theorem other_status_ends_the_loop_witness:
  "fst (fst (DoWithRetryFunc missingEnv sampleClient sampleRequest None sampleWorld)) = None
   \<and> fst (snd (fst (DoWithRetryFunc missingEnv sampleClient sampleRequest None sampleWorld)))
       = Some (sampleResponse 404 '''')
   \<and> snd (DoWithRetryFunc missingEnv sampleClient sampleRequest None sampleWorld)
       = \<lparr>httpCalls = 1, randCalls = 0, slept = []\<rparr>
   \<and> DoWithRetryFunc noContentEnv sampleClient sampleRequest None sampleWorld
       = ((None, None, None), \<lparr>httpCalls = 1, randCalls = 0, slept = []\<rparr>)"
proof -
  have h1: "httpDo missingEnv (httpCalls sampleWorld) sampleRequest
            = Inr (sampleResponse 404 '''')"
    by (simp add: missingEnv_def)
  have h2: "httpDo noContentEnv (httpCalls sampleWorld) sampleRequest
            = Inr (sampleResponse 204 '''')"
    by (simp add: noContentEnv_def)
  from other_status_ends_the_loop [OF h1, of sampleClient None]
    other_status_ends_the_loop [OF h2, of sampleClient None]
  show ?thesis by (simp add: sampleWorld_def sampleResponse_def)
qed

section \<open>Properties of the request builder\<close>




section \<open>Properties of the version comparison\<close>

text \<open>
  C8. With a cached version that parses, \<^verbatim>\<open>CompareVersion(target)\<close> returns the
  comparison of the target with the cached version, in this order; when the comparison
  of the version library is the three-way comparison of a linear order on versions,
  comparing the cached version with itself returns 0, a strictly larger target returns
  1 and a strictly smaller target returns -1.
\<close>

theorem CompareVersion_target_against_cached:
  fixes e :: "('j, 'u, 'v::linorder) env"
  assumes "version c \<noteq> ''''" and "version c \<noteq> ''unknown''"
    and "NewVersion e (version c) = Inr v1"
    and "NewVersion e target = Inr v2"
  shows "CompareVersion e c target w = Return ((Compare e v2 v1, None), c, w)
       \<and> ((\<forall>a b. Compare e a b = (if a < b then - 1 else if a = b then 0 else 1)) \<longrightarrow>
            CompareVersion e c (version c) w = Return ((0, None), c, w)
            \<and> (v1 < v2 \<longrightarrow> CompareVersion e c target w = Return ((1, None), c, w))
            \<and> (v2 < v1 \<longrightarrow> CompareVersion e c target w = Return ((- 1, None), c, w)))"
  using assms by (auto simp: CompareVersion_def)

theorem CompareVersion_target_against_cached_witness:
  "CompareVersion sampleEnv (sampleClient\<lparr>version := ''1.0.0''\<rparr>) ''2.0.0'' sampleWorld
     = Return ((1, None), sampleClient\<lparr>version := ''1.0.0''\<rparr>, sampleWorld)
   \<and> CompareVersion sampleEnv (sampleClient\<lparr>version := ''1.0.0''\<rparr>) ''1.0.0'' sampleWorld
     = Return ((0, None), sampleClient\<lparr>version := ''1.0.0''\<rparr>, sampleWorld)
   \<and> CompareVersion sampleEnv (sampleClient\<lparr>version := ''2.0.0''\<rparr>) ''1.0.0'' sampleWorld
     = Return ((- 1, None), sampleClient\<lparr>version := ''2.0.0''\<rparr>, sampleWorld)"
proof -
  have n1: "NewVersion sampleEnv ''1.0.0'' = Inr 1" by (simp add: sampleEnv_def)
  have n2: "NewVersion sampleEnv ''2.0.0'' = Inr 2" by (simp add: sampleEnv_def)
  have cmp: "\<forall>a b. Compare sampleEnv a b = (if a < b then - 1 else if a = b then 0 else 1)"
    by (simp add: sampleEnv_def)
  have a: "version (sampleClient\<lparr>version := ''1.0.0''\<rparr>) \<noteq> ''''"
    "version (sampleClient\<lparr>version := ''1.0.0''\<rparr>) \<noteq> ''unknown''"
    "NewVersion sampleEnv (version (sampleClient\<lparr>version := ''1.0.0''\<rparr>)) = Inr 1"
    using n1 by simp_all
  have b: "version (sampleClient\<lparr>version := ''2.0.0''\<rparr>) \<noteq> ''''"
    "version (sampleClient\<lparr>version := ''2.0.0''\<rparr>) \<noteq> ''unknown''"
    "NewVersion sampleEnv (version (sampleClient\<lparr>version := ''2.0.0''\<rparr>)) = Inr 2"
    using n2 by simp_all
  from CompareVersion_target_against_cached [OF a n2, of sampleWorld]
    CompareVersion_target_against_cached [OF b n1, of sampleWorld] cmp
  show ?thesis by simp
qed

section \<open>Properties of the authentication\<close>

lemma loginPrepare_client:
  assumes "loginPrepare e c0 w = Return (Inr (c, path, body, w1))"
  shows "c = (if platform c0 = ''nd'' \<and> domain c0 = '''' then c0\<lparr>domain := ''DefaultAuth''\<rparr>
              else c0)"
  using assms unfolding loginPrepare_def Let_def
  by (simp split: sum.splits if_splits outcome.splits prod.splits option.splits)

lemma loginPrepare_early_client:
  assumes "loginPrepare e c0 w = Return (Inl (r, c, w1))"
  shows "c = (if platform c0 = ''nd'' \<and> domain c0 = '''' then c0\<lparr>domain := ''DefaultAuth''\<rparr>
              else c0)"
  using assms unfolding loginPrepare_def Let_def
  by (simp split: sum.splits if_splits outcome.splits prod.splits option.splits)

lemma Authenticate_exchange:
  assumes "loginPrepare e c0 w = Return (Inr (c, path, body, w1))"
  shows "Authenticate e c0 w = loginExchange e c path body w1"
  using assms by (simp add: Authenticate_def)

lemma loginExchange_build_fails:
  assumes "MakeRestRequest e (c\<lparr>skipLoggingPayload := True\<rparr>) ''POST'' path (Some body) False
           = Return (rq, Some err)"
  shows "loginExchange e c path body w = Return (Some err, c\<lparr>skipLoggingPayload := True\<rparr>, w)"
  using assms by (simp add: loginExchange_def Let_def split: option.splits)

lemma loginExchange_built:
  assumes "MakeRestRequest e (c\<lparr>skipLoggingPayload := True\<rparr>) ''POST'' path (Some body) False
           = Return (Some req, None)"
    and "Do e (c\<lparr>skipLoggingPayload := True\<rparr>) req w = ((obj, r, err), w1)"
  shows "loginExchange e c path body w =
     (case err of
        Some er \<Rightarrow> Return (Some er, c\<lparr>skipLoggingPayload := False\<rparr>, w1)
      | None \<Rightarrow>
          (case obj of
             None \<Rightarrow> Return (Some (ErrorNew ''Empty response''), c\<lparr>skipLoggingPayload := False\<rparr>, w1)
           | Some j \<Rightarrow>
               (if StripQuotes e (FieldString e j ''token'') = ''''
                   \<or> StripQuotes e (FieldString e j ''token'') = ''{}''
                then Return (Some (ErrorNew ''Invalid Username or Password''),
                             c\<lparr>skipLoggingPayload := False\<rparr>, w1)
                else Return (None,
                  c\<lparr>skipLoggingPayload := False,
                    AuthToken := Some (CalculateExpiry (timeNow e w1) 1200
                      ((case AuthToken c of None \<Rightarrow> \<lparr>Token = '''', Expiry = 0\<rparr> | Some a \<Rightarrow> a)
                         \<lparr>Token := stripQuotes (StripQuotes e (FieldString e j ''token''))\<rparr>))\<rparr>,
                  w1))))"
  using assms by (simp add: loginExchange_def Let_def split: option.splits)

text \<open>
  C4. When \<^verbatim>\<open>Authenticate\<close> gets as far as the login exchange and the exchange returns a
  payload whose extracted token is the empty string or the placeholder \<^verbatim>\<open>{}\<close>, it returns
  the error "Invalid Username or Password" and the \<^verbatim>\<open>AuthToken\<close> of the client is what it
  was before the call.
\<close>

theorem Authenticate_empty_token:
  assumes "loginPrepare e c0 w = Return (Inr (c, path, body, w1))"
    and "MakeRestRequest e (c\<lparr>skipLoggingPayload := True\<rparr>) ''POST'' path (Some body) False
         = Return (Some req, None)"
    and "Do e (c\<lparr>skipLoggingPayload := True\<rparr>) req w1 = ((Some j, r, None), w2)"
    and "StripQuotes e (FieldString e j ''token'') = ''''
         \<or> StripQuotes e (FieldString e j ''token'') = ''{}''"
  shows "Authenticate e c0 w
         = Return (Some (ErrorNew ''Invalid Username or Password''),
                   c\<lparr>skipLoggingPayload := False\<rparr>, w2)
       \<and> AuthToken (c\<lparr>skipLoggingPayload := False\<rparr>) = AuthToken c0"
proof -
  have "Authenticate e c0 w
        = Return (Some (ErrorNew ''Invalid Username or Password''),
                  c\<lparr>skipLoggingPayload := False\<rparr>, w2)"
    using loginExchange_built [OF assms(2) assms(3)] assms(4)
    by (auto simp: Authenticate_exchange [OF assms(1)])
  moreover have "AuthToken (c\<lparr>skipLoggingPayload := False\<rparr>) = AuthToken c0"
    using loginPrepare_client [OF assms(1)] by (simp split: if_splits)
  ultimately show ?thesis by blast
qed

text \<open>The run of the login on the concrete environments.\<close>

lemma DoLoop_success:
  assumes "httpDo e (httpCalls w) req = Inr resp"
    and "StatusCode resp = 200"
    and "ParseJSON e (Body resp) = Inr j"
  shows "DoLoop e c req None attempts w
         = ((Some j, Some resp, None), w\<lparr>httpCalls := Suc (httpCalls w)\<rparr>)"
  apply (subst DoLoop.simps)
  using assms by (simp add: Let_def)

lemma sampleParse_payload:
  "sampleParse (msoAuthPayload ''admin'' ''secret'') = Inr []"
  "sampleParse (ndAuthPayload ''admin'' ''secret'') = Inr []"
  by (simp_all add: sampleParse_def msoAuthPayload_def ndAuthPayload_def authPayloadText_def
      dq_def tokenEmptyText_def tokenText_def versionText_def HasPrefix_def)

lemma sampleParse_tokenEmptyText: "sampleParse tokenEmptyText = Inr [(''token'', dq @ dq)]"
  by (simp add: sampleParse_def)

lemma stripQuotes_examples:
  "stripQuotes (dq @ dq) = ''''" "stripQuotes (dq @ ''abc'' @ dq) = ''abc''"
  "stripQuotes ''abc'' = ''abc''"
  by (simp_all add: stripQuotes_def dq_def HasPrefix_def HasSuffix_def TrimPrefix_def
      TrimSuffix_def)

lemma sample_loginPrepare:
  "loginPrepare emptyTokenEnv loggedInClient sampleWorld
   = Return (Inr (loggedInClient, ''/api/v1/auth/login'', [], sampleWorld))"
  "loginPrepare sampleEnv ndClient sampleWorld
   = Return (Inr (ndClient\<lparr>domain := ''DefaultAuth''\<rparr>, ''/login'',
                  [(''domain'', ''DefaultAuth'')], sampleWorld))"
  "loginPrepare refusingEnv ndClient sampleWorld
   = Return (Inr (ndClient\<lparr>domain := ''DefaultAuth''\<rparr>, ''/login'',
                  [(''domain'', ''DefaultAuth'')], sampleWorld))"
  by (simp_all add: loginPrepare_def Let_def emptyTokenEnv_def refusingEnv_def sampleEnv_def
      loggedInClient_def ndClient_def sampleClient_def sampleParse_payload)

lemma sample_MakeRestRequest:
  "MakeRestRequest emptyTokenEnv (loggedInClient\<lparr>skipLoggingPayload := True\<rparr>) ''POST''
     ''/api/v1/auth/login'' (Some []) False
   = Return (Some (loginRequest ''https://mso.example.com/api/v1/auth/login'' ''''), None)"
  "MakeRestRequest sampleEnv (ndClient\<lparr>domain := ''DefaultAuth'', skipLoggingPayload := True\<rparr>)
     ''POST'' ''/login'' (Some [(''domain'', ''DefaultAuth'')]) False
   = Return (Some (loginRequest ''https://mso.example.com/login'' ''domain''), None)"
  "MakeRestRequest refusingEnv (ndClient\<lparr>domain := ''DefaultAuth'', skipLoggingPayload := True\<rparr>)
     ''POST'' ''/login'' (Some [(''domain'', ''DefaultAuth'')]) False
   = Return (None, Some (LibError ''invalid URL''))"
  by (simp_all add: MakeRestRequest_def gatewayPath_def finishRequest_def NewRequest_def Let_def
      emptyTokenEnv_def refusingEnv_def sampleEnv_def loggedInClient_def ndClient_def
      sampleClient_def loginRequest_def)

lemma sample_Do:
  "Do emptyTokenEnv c req sampleWorld
   = ((Some [(''token'', dq @ dq)], Some (sampleResponse 200 tokenEmptyText), None),
      \<lparr>httpCalls = 1, randCalls = 0, slept = []\<rparr>)"
  "Do sampleEnv c req sampleWorld
   = ((Some [(''token'', dq @ ''abc'' @ dq)], Some (sampleResponse 200 tokenText), None),
      \<lparr>httpCalls = 1, randCalls = 0, slept = []\<rparr>)"
proof -
  have "httpDo emptyTokenEnv (httpCalls sampleWorld) req = Inr (sampleResponse 200 tokenEmptyText)"
    by (simp add: emptyTokenEnv_def)
  moreover have "StatusCode (sampleResponse 200 tokenEmptyText) = 200"
    by (simp add: sampleResponse_def)
  moreover have "ParseJSON emptyTokenEnv (Body (sampleResponse 200 tokenEmptyText))
                 = Inr [(''token'', dq @ dq)]"
    by (simp add: emptyTokenEnv_def sampleEnv_def sampleResponse_def sampleParse_tokenEmptyText)
  ultimately show "Do emptyTokenEnv c req sampleWorld
   = ((Some [(''token'', dq @ dq)], Some (sampleResponse 200 tokenEmptyText), None),
      \<lparr>httpCalls = 1, randCalls = 0, slept = []\<rparr>)"
    by (simp add: Do_def DoWithRetryFunc_def DoLoop_success sampleWorld_def)
  have "httpDo sampleEnv (httpCalls sampleWorld) req = Inr (sampleResponse 200 tokenText)"
    by (simp add: sampleEnv_def)
  moreover have "StatusCode (sampleResponse 200 tokenText) = 200"
    by (simp add: sampleResponse_def)
  moreover have "ParseJSON sampleEnv (Body (sampleResponse 200 tokenText))
                 = Inr [(''token'', dq @ ''abc'' @ dq)]"
    by (simp add: sampleEnv_def sampleResponse_def sampleParse_tokenText)
  ultimately show "Do sampleEnv c req sampleWorld
   = ((Some [(''token'', dq @ ''abc'' @ dq)], Some (sampleResponse 200 tokenText), None),
      \<lparr>httpCalls = 1, randCalls = 0, slept = []\<rparr>)"
    by (simp add: Do_def DoWithRetryFunc_def DoLoop_success sampleWorld_def)
qed

lemma sample_token:
  "StripQuotes emptyTokenEnv (FieldString emptyTokenEnv [(''token'', dq @ dq)] ''token'') = ''''"
  "StripQuotes sampleEnv (FieldString sampleEnv [(''token'', dq @ ''abc'' @ dq)] ''token'')
   = ''abc''"
  by (simp_all add: emptyTokenEnv_def sampleEnv_def sampleField_def stripQuotes_def dq_def
      HasPrefix_def HasSuffix_def TrimPrefix_def TrimSuffix_def)

theorem Authenticate_empty_token_witness:
  "Authenticate emptyTokenEnv loggedInClient sampleWorld
   = Return (Some (ErrorNew ''Invalid Username or Password''),
             loggedInClient\<lparr>skipLoggingPayload := False\<rparr>,
             \<lparr>httpCalls = 1, randCalls = 0, slept = []\<rparr>)
   \<and> AuthToken (loggedInClient\<lparr>skipLoggingPayload := False\<rparr>)
     = Some \<lparr>Token = ''old'', Expiry = 7\<rparr>"
proof -
  have h4: "StripQuotes emptyTokenEnv (FieldString emptyTokenEnv [(''token'', dq @ dq)] ''token'')
            = ''''
          \<or> StripQuotes emptyTokenEnv (FieldString emptyTokenEnv [(''token'', dq @ dq)] ''token'')
            = ''{}''"
    by (simp add: sample_token)
  from Authenticate_empty_token [OF sample_loginPrepare(1) sample_MakeRestRequest(1)
      sample_Do(1) h4]
  show ?thesis by (simp add: loggedInClient_def)
qed

text \<open>
  C9. Once \<^verbatim>\<open>Authenticate\<close> has built the login payload, it sets the flag that suppresses
  the logging of payloads and builds the login request. If building the request fails,
  it returns that error with the flag left at true. If the request is built, the
  exchange runs with the flag at true, and the client \<^verbatim>\<open>Authenticate\<close> leaves has the flag
  at false, whatever it was at construction: the earlier value is overwritten, not
  restored.
\<close>

theorem Authenticate_skipLoggingPayload:
  assumes "loginPrepare e c0 w = Return (Inr (c, path, body, w1))"
  shows "(\<forall>rq err. MakeRestRequest e (c\<lparr>skipLoggingPayload := True\<rparr>) ''POST'' path (Some body)
                      False = Return (rq, Some err)
            \<longrightarrow> Authenticate e c0 w = Return (Some err, c\<lparr>skipLoggingPayload := True\<rparr>, w1))
       \<and> (\<forall>req. MakeRestRequest e (c\<lparr>skipLoggingPayload := True\<rparr>) ''POST'' path (Some body)
                   False = Return (Some req, None)
            \<longrightarrow> (\<exists>res c'. Authenticate e c0 w
                            = Return (res, c', snd (Do e (c\<lparr>skipLoggingPayload := True\<rparr>) req w1))
                          \<and> skipLoggingPayload c' = False))"
proof (intro conjI allI impI)
  fix rq err
  assume "MakeRestRequest e (c\<lparr>skipLoggingPayload := True\<rparr>) ''POST'' path (Some body) False
          = Return (rq, Some err)"
  from loginExchange_build_fails [OF this]
  show "Authenticate e c0 w = Return (Some err, c\<lparr>skipLoggingPayload := True\<rparr>, w1)"
    by (simp add: Authenticate_exchange [OF assms])
next
  fix req
  assume b: "MakeRestRequest e (c\<lparr>skipLoggingPayload := True\<rparr>) ''POST'' path (Some body) False
             = Return (Some req, None)"
  obtain obj r err w2 where d: "Do e (c\<lparr>skipLoggingPayload := True\<rparr>) req w1 = ((obj, r, err), w2)"
    by (metis prod.exhaust)
  show "\<exists>res c'. Authenticate e c0 w
                  = Return (res, c', snd (Do e (c\<lparr>skipLoggingPayload := True\<rparr>) req w1))
                \<and> skipLoggingPayload c' = False"
    unfolding Authenticate_exchange [OF assms] loginExchange_built [OF b d] d
    by (simp split: option.splits)
qed

theorem Authenticate_skipLoggingPayload_witness:
  "skipLoggingPayload ndClient = True
   \<and> Authenticate refusingEnv ndClient sampleWorld
     = Return (Some (LibError ''invalid URL''),
               ndClient\<lparr>domain := ''DefaultAuth'', skipLoggingPayload := True\<rparr>, sampleWorld)
   \<and> (\<exists>res c'. Authenticate sampleEnv ndClient sampleWorld
                 = Return (res, c', \<lparr>httpCalls = 1, randCalls = 0, slept = []\<rparr>)
               \<and> skipLoggingPayload c' = False)"
proof -
  have f: "skipLoggingPayload ndClient = True" by (simp add: ndClient_def)
  from Authenticate_skipLoggingPayload [OF sample_loginPrepare(3)]
  have a: "Authenticate refusingEnv ndClient sampleWorld
     = Return (Some (LibError ''invalid URL''),
               ndClient\<lparr>domain := ''DefaultAuth'', skipLoggingPayload := True\<rparr>, sampleWorld)"
    using sample_MakeRestRequest(3) by simp
  from Authenticate_skipLoggingPayload [OF sample_loginPrepare(2)]
  have b: "\<exists>res c'. Authenticate sampleEnv ndClient sampleWorld
                 = Return (res, c', \<lparr>httpCalls = 1, randCalls = 0, slept = []\<rparr>)
               \<and> skipLoggingPayload c' = False"
    using sample_MakeRestRequest(2) by (simp add: sample_Do)
  from f a b show ?thesis by simp
qed

section \<open>What the methods change in the client\<close>

lemma sample_Authenticate:
  "Authenticate sampleEnv ndClient sampleWorld
     = Return (None,
               ndClient\<lparr>AuthToken := Some \<lparr>Token = ''abc'', Expiry = 1200\<rparr>,
                        domain := ''DefaultAuth'', skipLoggingPayload := False\<rparr>,
               \<lparr>httpCalls = 1, randCalls = 0, slept = []\<rparr>)"
proof -
  have a: "AuthToken ndClient = None"
    by (simp add: ndClient_def sampleClient_def)
  show ?thesis
    unfolding Authenticate_exchange [OF sample_loginPrepare(2)]
      loginExchange_built [OF sample_MakeRestRequest(2) sample_Do(2)]
    by (simp add: a CalculateExpiry_def sampleEnv_def sampleField_def stripQuotes_def dq_def
        HasPrefix_def HasSuffix_def TrimPrefix_def TrimSuffix_def)
qed

text \<open>
  C5, as stated, fails: \<^verbatim>\<open>Authenticate\<close> on a client of the gateway platform that was
  constructed without a login domain and with the payload logging suppressed leaves a
  client whose login domain is \<^verbatim>\<open>DefaultAuth\<close> and whose flag is false.
\<close>

theorem Authenticate_changes_domain_and_flag:
  "domain ndClient = '''' \<and> skipLoggingPayload ndClient = True
   \<and> Authenticate sampleEnv ndClient sampleWorld
     = Return (None,
               ndClient\<lparr>AuthToken := Some \<lparr>Token = ''abc'', Expiry = 1200\<rparr>,
                        domain := ''DefaultAuth'', skipLoggingPayload := False\<rparr>,
               \<lparr>httpCalls = 1, randCalls = 0, slept = []\<rparr>)"
  using sample_Authenticate by (simp add: ndClient_def sampleClient_def)

lemma loginExchange_frame:
  assumes "loginExchange e c path body w = Return (r, c', w')"
  shows "sameSettings c c' \<and> domain c' = domain c \<and> version c' = version c"
proof (cases "MakeRestRequest e (c\<lparr>skipLoggingPayload := True\<rparr>) ''POST'' path (Some body) False")
  case Panic
  with assms show ?thesis by (simp add: loginExchange_def Let_def)
next
  case (Return x)
  obtain rq er where x: "x = (rq, er)" by (cases x)
  show ?thesis
  proof (cases er)
    case (Some err)
    from loginExchange_build_fails [of e c path body rq err w] Return x Some assms
    show ?thesis by (auto simp: sameSettings_def)
  next
    case None
    show ?thesis
    proof (cases rq)
      case None
      with assms Return x \<open>er = None\<close> show ?thesis by (simp add: loginExchange_def Let_def)
    next
      case (Some req)
      obtain obj rs err w2 where d: "Do e (c\<lparr>skipLoggingPayload := True\<rparr>) req w = ((obj, rs, err), w2)"
        by (metis prod.exhaust)
      from Return x \<open>er = None\<close> Some
      have b: "MakeRestRequest e (c\<lparr>skipLoggingPayload := True\<rparr>) ''POST'' path (Some body) False
               = Return (Some req, None)" by simp
      from assms show ?thesis
        unfolding loginExchange_built [OF b d]
        by (auto simp: sameSettings_def split: option.splits if_splits)
    qed
  qed
qed

lemma Authenticate_frame:
  assumes "Authenticate e c w = Return (r, c', w')"
  shows "sameSettings c c' \<and> version c' = version c
       \<and> domain c' = (if platform c = ''nd'' \<and> domain c = '''' then ''DefaultAuth''
                       else domain c)"
proof (cases "loginPrepare e c w")
  case Panic
  with assms show ?thesis by (simp add: Authenticate_def)
next
  case (Return x)
  show ?thesis
  proof (cases x)
    case (Inl early)
    obtain r1 c1 w1 where e1: "early = (r1, c1, w1)" by (cases early)
    from Return Inl e1 assms have "c' = c1" by (simp add: Authenticate_def)
    moreover from loginPrepare_early_client [of e c w r1 c1 w1] Return Inl e1
    have "c1 = (if platform c = ''nd'' \<and> domain c = '''' then c\<lparr>domain := ''DefaultAuth''\<rparr>
                else c)" by simp
    ultimately show ?thesis by (simp add: sameSettings_def)
  next
    case (Inr go)
    obtain c1 path body w1 where g: "go = (c1, path, body, w1)" by (cases go)
    from Return Inr g have p: "loginPrepare e c w = Return (Inr (c1, path, body, w1))" by simp
    from assms have "loginExchange e c1 path body w1 = Return (r, c', w')"
      by (simp add: Authenticate_exchange [OF p])
    from loginExchange_frame [OF this] loginPrepare_client [OF p]
    show ?thesis by (auto simp: sameSettings_def split: if_splits)
  qed
qed

lemma GetVersion_frame:
  assumes "GetVersion e c w = Return (r, c', w')"
  shows "sameSettings c c' \<and> domain c' = domain c
       \<and> skipLoggingPayload c' = skipLoggingPayload c \<and> AuthToken c' = AuthToken c"
  using assms unfolding GetVersion_def Let_def
  by (auto simp: sameSettings_def split: outcome.splits option.splits prod.splits if_splits)

lemma CompareVersion_frame:
  assumes "CompareVersion e c v w = Return (r, c', w')"
  shows "sameSettings c c' \<and> domain c' = domain c
       \<and> skipLoggingPayload c' = skipLoggingPayload c \<and> AuthToken c' = AuthToken c"
proof (cases "version c = ''''")
  case False
  with assms show ?thesis
    by (auto simp: CompareVersion_def sameSettings_def split: if_splits sum.splits)
next
  case True
  show ?thesis
  proof (cases "GetVersion e c w")
    case Panic
    with assms True show ?thesis by (simp add: CompareVersion_def)
  next
    case (Return x)
    obtain r1 c1 w1 where x: "x = (r1, c1, w1)" by (cases x)
    from assms True Return x have "c' = c1"
      by (auto simp: CompareVersion_def split: if_splits sum.splits)
    with GetVersion_frame [of e c w r1 c1 w1] Return x show ?thesis by simp
  qed
qed

text \<open>
  C5, amended. No method of the client modifies the base URL, the user name, the
  password, the TLS flag, the request timeout, the proxy URL, the platform, the maximal
  number of retries or the three backoff settings: \<^verbatim>\<open>Authenticate\<close>, \<^verbatim>\<open>GetVersion\<close> and
  \<^verbatim>\<open>CompareVersion\<close> return a client that agrees with the one they were given on all of
  them (\<^verbatim>\<open>MakeRestRequest\<close>, \<^verbatim>\<open>Do\<close> and \<^verbatim>\<open>DoWithRetryFunc\<close> assign no field). The login
  domain, the flag that suppresses the logging of payloads and the version are modified:
  \<^verbatim>\<open>Authenticate\<close> sets an empty login domain to \<^verbatim>\<open>DefaultAuth\<close> on the gateway platform
  (and leaves the domain alone otherwise) and overwrites the flag; \<^verbatim>\<open>GetVersion\<close> and
  \<^verbatim>\<open>CompareVersion\<close> leave the domain, the flag and the token alone and may store the
  version.
\<close>

theorem methods_keep_settings:
  "(Authenticate e c w = Return (ra, ca, wa)
      \<longrightarrow> sameSettings c ca \<and> version ca = version c
          \<and> domain ca = (if platform c = ''nd'' \<and> domain c = '''' then ''DefaultAuth''
                          else domain c))
   \<and> (GetVersion e c w = Return (rv, cv, wv)
      \<longrightarrow> sameSettings c cv \<and> domain cv = domain c
          \<and> skipLoggingPayload cv = skipLoggingPayload c \<and> AuthToken cv = AuthToken c)
   \<and> (CompareVersion e c v w = Return (rc, cc, wc)
      \<longrightarrow> sameSettings c cc \<and> domain cc = domain c
          \<and> skipLoggingPayload cc = skipLoggingPayload c \<and> AuthToken cc = AuthToken c)"
  using Authenticate_frame GetVersion_frame CompareVersion_frame by blast


lemma GetVersion_stores:
  assumes "MakeRestRequest e c ''GET'' ''/api/v1/platform/version'' None True
           = Return (Some req, None)"
    and "Do e c req w = ((obj, r, None), w1)"
    and "CheckForErrors e obj ''GET'' = None"
    and "SearchString e obj ''version'' = Return s"
    and "stripQuotes s \<noteq> ''''"
  shows "GetVersion e c w
         = Return ((stripQuotes s, None), c\<lparr>version := stripQuotes s\<rparr>, w1)"
  using assms by (simp add: GetVersion_def Let_def)

lemma sample_GetVersion:
  "GetVersion versionEnv loggedInClient sampleWorld
   = Return ((''4.2.1'', None), loggedInClient\<lparr>version := ''4.2.1''\<rparr>,
             \<lparr>httpCalls = 1, randCalls = 0, slept = []\<rparr>)"
proof -
  let ?req = "\<lparr>Method = ''GET'', URL = ''https://mso.example.com/api/v1/platform/version'',
               ReqBody = None,
               Header = [''Content-Type'' \<mapsto> ''application/json'',
                         ''Authorization'' \<mapsto> ''Bearer old'']\<rparr>"
  let ?obj = "[(''version'', dq @ ''4.2.1'' @ dq)]"
  have m: "MakeRestRequest versionEnv loggedInClient ''GET'' ''/api/v1/platform/version'' None True
           = Return (Some ?req, None)"
    by (simp add: MakeRestRequest_def gatewayPath_def finishRequest_def NewRequest_def Let_def
        InjectAuthenticationHeader_def versionEnv_def sampleEnv_def loggedInClient_def
        sampleClient_def)
  have p: "sampleParse versionText = Inr ?obj"
    by (simp add: sampleParse_def versionText_def tokenText_def tokenEmptyText_def dq_def)
  have "httpDo versionEnv (httpCalls sampleWorld) ?req = Inr (sampleResponse 200 versionText)"
    by (simp add: versionEnv_def)
  moreover have "StatusCode (sampleResponse 200 versionText) = 200"
    by (simp add: sampleResponse_def)
  moreover have "ParseJSON versionEnv (Body (sampleResponse 200 versionText)) = Inr ?obj"
    by (simp add: versionEnv_def sampleEnv_def sampleResponse_def p)
  ultimately have d: "Do versionEnv loggedInClient ?req sampleWorld
     = ((Some ?obj, Some (sampleResponse 200 versionText), None),
        \<lparr>httpCalls = 1, randCalls = 0, slept = []\<rparr>)"
    by (simp add: Do_def DoWithRetryFunc_def DoLoop_success sampleWorld_def)
  have c: "CheckForErrors versionEnv (Some ?obj) ''GET'' = None"
    by (simp add: versionEnv_def sampleEnv_def)
  have s: "SearchString versionEnv (Some ?obj) ''version'' = Return (dq @ ''4.2.1'' @ dq)"
    by (simp add: versionEnv_def sampleEnv_def sampleField_def)
  have q: "stripQuotes (dq @ ''4.2.1'' @ dq) = ''4.2.1''"
    by (simp add: stripQuotes_def dq_def HasPrefix_def HasSuffix_def TrimPrefix_def
        TrimSuffix_def)
  have n: "stripQuotes (dq @ ''4.2.1'' @ dq) \<noteq> ''''" unfolding q by simp
  from GetVersion_stores [OF m d c s n] show ?thesis unfolding q .
qed

lemma sample_CompareVersion:
  "CompareVersion sampleEnv (sampleClient\<lparr>version := ''1.0.0''\<rparr>) ''2.0.0'' sampleWorld
   = Return ((1, None), sampleClient\<lparr>version := ''1.0.0''\<rparr>, sampleWorld)"
  by (simp add: CompareVersion_def sampleEnv_def)

theorem methods_keep_settings_witness:
  "sameSettings ndClient
     (ndClient\<lparr>AuthToken := Some \<lparr>Token = ''abc'', Expiry = 1200\<rparr>,
               domain := ''DefaultAuth'', skipLoggingPayload := False\<rparr>)
   \<and> sameSettings loggedInClient (loggedInClient\<lparr>version := ''4.2.1''\<rparr>)
   \<and> domain (loggedInClient\<lparr>version := ''4.2.1''\<rparr>) = domain loggedInClient
   \<and> sameSettings (sampleClient\<lparr>version := ''1.0.0''\<rparr>) (sampleClient\<lparr>version := ''1.0.0''\<rparr>)"
  using
    methods_keep_settings [where e = sampleEnv and c = ndClient and w = sampleWorld
      and ra = None
      and ca = "ndClient\<lparr>AuthToken := Some \<lparr>Token = ''abc'', Expiry = 1200\<rparr>,
                        domain := ''DefaultAuth'', skipLoggingPayload := False\<rparr>"
      and wa = "\<lparr>httpCalls = 1, randCalls = 0, slept = []\<rparr>"]
    methods_keep_settings [where e = versionEnv and c = loggedInClient and w = sampleWorld
      and rv = "(''4.2.1'', None)" and cv = "loggedInClient\<lparr>version := ''4.2.1''\<rparr>"
      and wv = "\<lparr>httpCalls = 1, randCalls = 0, slept = []\<rparr>"]
    methods_keep_settings [where e = sampleEnv and c = "sampleClient\<lparr>version := ''1.0.0''\<rparr>"
      and w = sampleWorld and v = "''2.0.0''" and rc = "(1, None)"
      and cc = "sampleClient\<lparr>version := ''1.0.0''\<rparr>" and wc = sampleWorld]
    sample_Authenticate sample_GetVersion sample_CompareVersion
  by simp

end
